theory Spec2Isabelle
  imports Main
begin

section \<open>Association manifests of the MOS workshop notebook\<close>

text \<open>
  The notebook \<^verbatim>\<open>jwst_pipeline_mos_workshop.ipynb\<close> obtains an association from the
  \<^verbatim>\<open>jwst\<close> package and then edits it with plain subscript statements:
  \<^verbatim>\<open>
  association_grismC['asn_type'] = 'None'
  association_grismC['products'][0]['members'].append({})
  association_grismC['products'][0]['members'][1]["expname"] = object_cat_file
  association_grismC['products'][0]['members'][1]["exptype"] = "sourcecat"
  with open(association_grismC_file, 'w') as outfile:
      outfile.write(association_grismC.dump()[1])
  \<close>
  These statements are what is embedded below. The calls into the package and the
  standard library (\<^verbatim>\<open>asn_from_list.asn_from_list\<close>, \<^verbatim>\<open>json.load\<close>) are not defined by
  the notebook and have no definition here; the package's \<^verbatim>\<open>dump\<close>, which the last
  statement calls, is a parameter of that statement's model.
\<close>

subsection \<open>Data\<close>

text \<open>
  A member is a Python dictionary from key strings to string values. The notebook
  creates one empty (\<^verbatim>\<open>{}\<close>) and fills it key by key, so a member may lack any key.
  Python dictionaries keep insertion order; an association list does too.
\<close>

type_synonym member = "(string \<times> string) list"

text \<open>
  The keys \<^verbatim>\<open>'members'\<close>, \<^verbatim>\<open>'products'\<close> and \<^verbatim>\<open>'asn_type'\<close> that the notebook
  subscripts are record fields, together with the product name and the rule that the
  notebook passes when it asks for the association.
\<close>

record product =
  name :: string
  members :: "member list"

record manifest =
  asn_rule :: string
  asn_type :: string
  products :: "product list"

text \<open>
  The exceptions the embedded statements can raise: \<^verbatim>\<open>IndexError\<close> from a subscript,
  \<^verbatim>\<open>OSError\<close> (of which \<^verbatim>\<open>IOError\<close> is an alias and \<^verbatim>\<open>FileNotFoundError\<close> a
  subclass) from the file, and an exception of any other class from inside the package.
\<close>

datatype py_exception = IndexError | OSError | OtherError

text \<open>
  A statement mutates its object in place and may raise. Its model returns the
  exception, if any, together with the object as the statement leaves it: what has
  been mutated before an exception stays mutated.
\<close>

type_synonym 'a stmt = "'a \<Rightarrow> py_exception option \<times> 'a"

definition then_stmt :: "'a stmt \<Rightarrow> 'a stmt \<Rightarrow> 'a stmt" where
  "then_stmt f g s = (case f s of (None, s') \<Rightarrow> g s' | (Some e, s') \<Rightarrow> (Some e, s'))"

subsection \<open>Python subscripts\<close>

text \<open>
  \<^verbatim>\<open>xs[i]\<close> on a list: indices from \<^verbatim>\<open>-len(xs)\<close> to \<^verbatim>\<open>len(xs) - 1\<close> are in range,
  negative ones counting from the end; any other raises \<^verbatim>\<open>IndexError\<close> (\<open>None\<close> here).
\<close>

definition list_position :: "'a list \<Rightarrow> int \<Rightarrow> nat option" where
  "list_position xs i =
     (if 0 \<le> i \<and> i < int (length xs) then Some (nat i)
      else if - int (length xs) \<le> i \<and> i < 0 then Some (nat (int (length xs) + i))
      else None)"

text \<open>
  \<^verbatim>\<open>d[key] = v\<close> on a dictionary: an existing key keeps its place and gets the new
  value, a new key goes to the end.
\<close>

fun dict_setitem :: "string \<Rightarrow> string \<Rightarrow> member \<Rightarrow> member" where
  "dict_setitem k v [] = [(k, v)]"
| "dict_setitem k v ((k', v') # d) =
     (if k' = k then (k, v) # d else (k', v') # dict_setitem k v d)"

subsection \<open>The notebook's statements\<close>

text \<open>\<^verbatim>\<open>association['asn_type'] = tag\<close> (lines 507 and 690 of the notebook).\<close>

definition set_asn_type :: "string \<Rightarrow> manifest stmt" where
  "set_asn_type tag M = (None, M\<lparr>asn_type := tag\<rparr>)"

text \<open>
  \<^verbatim>\<open>association['products'][i]['members'].append(m)\<close> (line 691, where \<open>i\<close> is \<open>0\<close>
  and \<open>m\<close> is the empty dictionary).
\<close>

definition members_append :: "int \<Rightarrow> member \<Rightarrow> manifest stmt" where
  "members_append i m M =
     (case list_position (products M) i of
        None \<Rightarrow> (Some IndexError, M)
      | Some k \<Rightarrow>
          (let p = products M ! k
           in (None, M\<lparr>products := (products M)[k := p\<lparr>members := members p @ [m]\<rparr>]\<rparr>)))"

text \<open>
  \<^verbatim>\<open>association['products'][i]['members'][j][key] = v\<close> (lines 692 and 693, where \<open>i\<close>
  is \<open>0\<close> and \<open>j\<close> is \<open>1\<close>).
\<close>

definition member_setitem :: "int \<Rightarrow> int \<Rightarrow> string \<Rightarrow> string \<Rightarrow> manifest stmt" where
  "member_setitem i j key v M =
     (case list_position (products M) i of
        None \<Rightarrow> (Some IndexError, M)
      | Some k \<Rightarrow>
          (let p = products M ! k
           in case list_position (members p) j of
                None \<Rightarrow> (Some IndexError, M)
              | Some l \<Rightarrow>
                  (None, M\<lparr>products := (products M)
                     [k := p\<lparr>members := (members p)[l := dict_setitem key v (members p ! l)]\<rparr>]\<rparr>)))"

text \<open>
  Lines 691 to 693 in sequence, with the product index, the catalogue path and the role
  as parameters. The member index \<open>1\<close> is the notebook's literal.
\<close>

definition append_member :: "int \<Rightarrow> string \<Rightarrow> string \<Rightarrow> manifest stmt" where
  "append_member i path role =
     then_stmt (members_append i [])
       (then_stmt (member_setitem i 1 ''expname'' path)
                  (member_setitem i 1 ''exptype'' role))"


subsection \<open>Writing the association file\<close>

text \<open>
  \<^verbatim>\<open>
  with open(association_grismC_file, 'w') as outfile:
      outfile.write(association_grismC.dump()[1])
  \<close>
  The state is the file system: the content of each file, and the paths on which a
  handle is open. Paths are taken as the operating system resolves them.
\<close>

record filesystem =
  files :: "string \<rightharpoonup> string"
  open_files :: "string list"

text \<open>
  Whether \<^verbatim>\<open>open\<close> and \<^verbatim>\<open>write\<close> succeed is not decided by the notebook but by the
  operating system, whose answers are inputs of the model. To \<^verbatim>\<open>open(dest, 'w')\<close> it
  answers by opening the file, or by refusing because the directory that should hold
  the destination does not exist, or by refusing for any other reason (the destination
  is a directory, permission is denied). To the write it answers by taking the whole
  text, or by failing (a full disk, say) after the first \<open>n\<close> characters have reached
  the file.
\<close>

datatype open_answer = Opens | ParentMissing | Refused

datatype write_answer = Writes | FailsAfter nat

text \<open>
  \<^verbatim>\<open>open(dest, 'w')\<close>: a refusal raises \<^verbatim>\<open>OSError\<close> and nothing is created or changed;
  otherwise the file is created or truncated to empty, at the destination itself, and a
  handle is open.
\<close>

definition open_w :: "open_answer \<Rightarrow> string \<Rightarrow> filesystem stmt" where
  "open_w a dest fs =
     (case a of
        Opens \<Rightarrow>
          (None, fs\<lparr>files := (files fs)(dest \<mapsto> []), open_files := dest # open_files fs\<rparr>)
      | ParentMissing \<Rightarrow> (Some OSError, fs)
      | Refused \<Rightarrow> (Some OSError, fs))"

text \<open>
  \<^verbatim>\<open>association.dump()[1]\<close>: the package's \<^verbatim>\<open>dump\<close> raises or returns a sequence of
  strings, and the subscript raises \<^verbatim>\<open>IndexError\<close> when that sequence has no index 1.
\<close>

definition dump_text :: "(manifest \<Rightarrow> py_exception + string list) \<Rightarrow> manifest \<Rightarrow> py_exception + string" where
  "dump_text dump M =
     (case dump M of
        Inl e \<Rightarrow> Inl e
      | Inr parts \<Rightarrow>
          (case list_position parts 1 of
             None \<Rightarrow> Inl IndexError
           | Some k \<Rightarrow> Inr (parts ! k)))"

text \<open>\<^verbatim>\<open>outfile.write(text)\<close> under the operating system's answer.\<close>

definition write_text :: "write_answer \<Rightarrow> string \<Rightarrow> string \<Rightarrow> filesystem stmt" where
  "write_text w dest text fs =
     (case w of
        Writes \<Rightarrow> (None, fs\<lparr>files := (files fs)(dest \<mapsto> text)\<rparr>)
      | FailsAfter n \<Rightarrow> (Some OSError, fs\<lparr>files := (files fs)(dest \<mapsto> take n text)\<rparr>))"

text \<open>Leaving the \<^verbatim>\<open>with\<close> block closes the handle.\<close>

definition close_file :: "string \<Rightarrow> filesystem \<Rightarrow> filesystem" where
  "close_file dest fs = fs\<lparr>open_files := remove1 dest (open_files fs)\<rparr>"

text \<open>
  The whole \<^verbatim>\<open>with\<close> statement. When \<^verbatim>\<open>open\<close> raises there is no handle and the
  exception propagates. Otherwise the body runs with the file already truncated: the
  argument \<^verbatim>\<open>association.dump()[1]\<close> is evaluated first, and if that raises nothing is
  written; then the text is written. The handle is closed whatever the body did, and
  an exception of the body propagates.
\<close>

definition persist ::
  "open_answer \<Rightarrow> write_answer \<Rightarrow> (manifest \<Rightarrow> py_exception + string list) \<Rightarrow> manifest
     \<Rightarrow> string \<Rightarrow> filesystem stmt" where
  "persist a w dump M dest fs =
     (case open_w a dest fs of
        (Some e, fs1) \<Rightarrow> (Some e, fs1)
      | (None, fs1) \<Rightarrow>
          (case (case dump_text dump M of
                   Inl e \<Rightarrow> (Some e, fs1)
                 | Inr text \<Rightarrow> write_text w dest text fs1) of
             (r, fs2) \<Rightarrow> (r, close_file dest fs2)))"

subsection \<open>Concrete inputs\<close>

text \<open>
  An association with one product of one science member, as the notebook has it before
  line 691.
\<close>

definition science_member :: "string \<Rightarrow> member" where
  "science_member path = [(''expname'', path), (''exptype'', ''science'')]"

definition grism_manifest :: manifest where
  "grism_manifest =
     \<lparr>asn_rule = ''DMSLevel2bBase'', asn_type = ''None'',
      products = [\<lparr>name = ''NIRISS_F115W_WFSSC_dit1'',
                   members = [science_member ''outputs/NIRISS_F115W_WFSSC_dit1_rate.fits'']\<rparr>]\<rparr>"

text \<open>
  A \<^verbatim>\<open>dump\<close> that returns a format name and a text, one that raises, and a file system
  with one older file at the destination and no open handle.
\<close>

definition returning_dump :: "manifest \<Rightarrow> py_exception + string list" where
  "returning_dump M = Inr [''json'', ''association text'']"

definition raising_dump :: "manifest \<Rightarrow> py_exception + string list" where
  "raising_dump M = Inl OtherError"

definition disk_with_old_file :: filesystem where
  "disk_with_old_file = \<lparr>files = [''./asn.json'' \<mapsto> ''old association''], open_files = []\<rparr>"

section \<open>Properties\<close>

subsection \<open>Subscripts and single statements\<close>

lemma list_position_less: "list_position xs i = Some k \<Longrightarrow> k < length xs"
  by (auto simp: list_position_def split: if_splits)

lemma list_position_one: "list_position xs 1 = (if 2 \<le> length xs then Some 1 else None)"
  by (auto simp: list_position_def)

lemma list_position_zero: "list_position xs 0 = (if xs = [] then None else Some 0)"
  by (auto simp: list_position_def)

lemma list_position_update [simp]: "list_position (xs[k := x]) i = list_position xs i"
  by (simp add: list_position_def)

lemma members_append_valid:
  "list_position (products M) i = Some k \<Longrightarrow>
   members_append i m M =
     (None, M\<lparr>products := (products M)[k := (products M ! k)\<lparr>members := members (products M ! k) @ [m]\<rparr>]\<rparr>)"
  by (simp add: members_append_def Let_def)

subsection \<open>Lines 691 to 693 on a product that has a member\<close>

lemma append_member_nonempty:
  assumes k: "list_position (products M) i = Some k"
    and ne: "members (products M ! k) \<noteq> []"
  shows "append_member i path role M =
     (None, M\<lparr>products := (products M)[k := (products M ! k)\<lparr>members :=
        (members (products M ! k) @ [[]])[1 := dict_setitem ''exptype'' role
           (dict_setitem ''expname'' path ((members (products M ! k) @ [[]]) ! 1))]\<rparr>]\<rparr>)"
proof -
  have kl: "k < length (products M)" using k by (rule list_position_less)
  have two: "2 \<le> length (members (products M ! k) @ [[]])"
    using ne by (cases "members (products M ! k)") simp_all
  show ?thesis
    using k kl two ne
    by (simp add: append_member_def then_stmt_def members_append_valid member_setitem_def
        list_position_one Let_def)
qed


subsection \<open>The association statements\<close>

text \<open>
  C9. Assigning the association type never raises, stores exactly the given tag, and
  leaves the rule and the products (names, members, their order, paths and roles) as
  they were.
\<close>

theorem set_asn_type_frame:
  "fst (set_asn_type tag M) = None
   \<and> asn_type (snd (set_asn_type tag M)) = tag
   \<and> asn_rule (snd (set_asn_type tag M)) = asn_rule M
   \<and> products (snd (set_asn_type tag M)) = products M
   \<and> snd (set_asn_type tag M) = M\<lparr>asn_type := tag\<rparr>"
  by (simp add: set_asn_type_def)


text \<open>
  C10. When the first product has at least one member, appending the empty dictionary
  succeeds and leaves a member list of length at least two, so index 1 is in range and
  neither assignment at index 1 raises: all of lines 691 to 693 run without exception.
\<close>

theorem index_one_in_bounds:
  assumes "products M \<noteq> []" and "members (products M ! 0) \<noteq> []"
  shows "fst (members_append 0 [] M) = None
     \<and> 2 \<le> length (members (products (snd (members_append 0 [] M)) ! 0))
     \<and> list_position (members (products (snd (members_append 0 [] M)) ! 0)) 1 = Some 1
     \<and> fst (member_setitem 0 1 ''expname'' path (snd (members_append 0 [] M))) = None
     \<and> fst (append_member 0 path role M) = None"
proof -
  have z: "list_position (products M) 0 = Some 0"
    using assms(1) by (simp add: list_position_zero)
  have len: "2 \<le> length (members (products M ! 0) @ [[]])"
    using assms(2) by (cases "members (products M ! 0)") simp_all
  have a: "members_append 0 [] M =
     (None, M\<lparr>products := (products M)[0 := (products M ! 0)\<lparr>members := members (products M ! 0) @ [[]]\<rparr>]\<rparr>)"
    by (rule members_append_valid [OF z])
  have ms: "members (products (snd (members_append 0 [] M)) ! 0) = members (products M ! 0) @ [[]]"
    using assms(1) by (simp add: a)
  have s: "fst (member_setitem 0 1 ''expname'' path (snd (members_append 0 [] M))) = None"
    using assms(1) len z by (simp add: a member_setitem_def list_position_one Let_def)
  show ?thesis
    using len z s by (simp add: ms list_position_one append_member_nonempty [OF z assms(2)]) (simp add: a)
qed

text \<open>The notebook's own case: one product with one science member.\<close>

theorem index_one_in_bounds_witness:
  "products grism_manifest \<noteq> [] \<and> members (products grism_manifest ! 0) \<noteq> []
   \<and> fst (append_member 0 ''inputs/NIRISS_F115W_direct_dit1_cat_clean.ecsv'' ''sourcecat'' grism_manifest) = None"
proof -
  have h1: "products grism_manifest \<noteq> []" by (simp add: grism_manifest_def)
  have h2: "members (products grism_manifest ! 0) \<noteq> []" by (simp add: grism_manifest_def science_member_def)
  show ?thesis using h1 h2 index_one_in_bounds [OF h1 h2] by simp
qed




subsection \<open>Writing the file\<close>

lemma dump_text_returning: "dump_text returning_dump M = Inr ''association text''"
  by (simp add: dump_text_def returning_dump_def list_position_def)

lemma dump_text_raising: "dump_text raising_dump M = Inl OtherError"
  by (simp add: dump_text_def raising_dump_def)

text \<open>
  C4, as stated, fails. A write that fails after five characters raises, and the
  destination, which held an older complete file, now holds those five characters: the
  file is opened for writing at the destination itself, with no temporary file and no
  rename.
\<close>

theorem persist_partial_file_counterexample:
  "fst (persist Opens (FailsAfter 5) returning_dump grism_manifest ''./asn.json'' disk_with_old_file)
     = Some OSError
   \<and> files disk_with_old_file ''./asn.json'' = Some ''old association''
   \<and> files (snd (persist Opens (FailsAfter 5) returning_dump grism_manifest ''./asn.json''
        disk_with_old_file)) ''./asn.json'' = Some ''assoc''"
  by (simp add: persist_def open_w_def write_text_def close_file_def dump_text_returning
      disk_with_old_file_def)

text \<open>
  C4, amended. However \<open>persist\<close> ends, the open handles are those that were open
  before. When \<^verbatim>\<open>open\<close> is refused, and in particular when the directory of the
  destination does not exist, it raises \<^verbatim>\<open>OSError\<close> (\<^verbatim>\<open>IOError\<close>) and the file system
  is unchanged, so no file is created. When the file opens and the text is obtained, a
  write that succeeds leaves exactly the text at the destination, and a write that
  fails raises \<^verbatim>\<open>OSError\<close> and leaves at the destination the part written so far. When
  the file opens and obtaining the text raises, that exception propagates and the
  destination is left empty.
\<close>

theorem persist_outcomes:
  "open_files (snd (persist a w dump M dest fs)) = open_files fs
   \<and> persist ParentMissing w dump M dest fs = (Some OSError, fs)
   \<and> (a \<noteq> Opens \<longrightarrow> persist a w dump M dest fs = (Some OSError, fs))
   \<and> (dump_text dump M = Inr text \<longrightarrow>
        persist Opens Writes dump M dest fs = (None, fs\<lparr>files := (files fs)(dest \<mapsto> text)\<rparr>)
        \<and> persist Opens (FailsAfter n) dump M dest fs
            = (Some OSError, fs\<lparr>files := (files fs)(dest \<mapsto> take n text)\<rparr>))
   \<and> (dump_text dump M = Inl e \<longrightarrow>
        persist Opens w dump M dest fs = (Some e, fs\<lparr>files := (files fs)(dest \<mapsto> [])\<rparr>))"
proof -
  have handles: "open_files (snd (persist a w dump M dest fs)) = open_files fs"
    by (simp add: persist_def open_w_def write_text_def close_file_def
        split: open_answer.splits write_answer.splits sum.splits)
  have missing: "persist ParentMissing w dump M dest fs = (Some OSError, fs)"
    by (simp add: persist_def open_w_def)
  have refused: "a \<noteq> Opens \<longrightarrow> persist a w dump M dest fs = (Some OSError, fs)"
    by (cases a) (simp_all add: persist_def open_w_def)
  have written: "dump_text dump M = Inr text \<longrightarrow>
        persist Opens Writes dump M dest fs = (None, fs\<lparr>files := (files fs)(dest \<mapsto> text)\<rparr>)
        \<and> persist Opens (FailsAfter n) dump M dest fs
            = (Some OSError, fs\<lparr>files := (files fs)(dest \<mapsto> take n text)\<rparr>)"
    by (simp add: persist_def open_w_def write_text_def close_file_def)
  have raised: "dump_text dump M = Inl e \<longrightarrow>
        persist Opens w dump M dest fs = (Some e, fs\<lparr>files := (files fs)(dest \<mapsto> [])\<rparr>)"
    by (simp add: persist_def open_w_def close_file_def)
  show ?thesis using handles missing refused written raised by blast
qed

text \<open>
  Each exit path once, on a destination that holds an older file: the write succeeds,
  the write fails after three characters, the directory is missing, the destination
  is refused, and \<^verbatim>\<open>dump\<close> raises after the file was truncated.
\<close>

theorem persist_outcomes_witness:
  "persist Opens Writes returning_dump grism_manifest ''./asn.json'' disk_with_old_file
       = (None, disk_with_old_file\<lparr>files := [''./asn.json'' \<mapsto> ''association text'']\<rparr>)
   \<and> persist Opens (FailsAfter 3) returning_dump grism_manifest ''./asn.json'' disk_with_old_file
       = (Some OSError, disk_with_old_file\<lparr>files := [''./asn.json'' \<mapsto> ''ass'']\<rparr>)
   \<and> persist ParentMissing Writes returning_dump grism_manifest ''missing/asn.json'' disk_with_old_file
       = (Some OSError, disk_with_old_file)
   \<and> persist Refused Writes returning_dump grism_manifest ''./outputs'' disk_with_old_file
       = (Some OSError, disk_with_old_file)
   \<and> persist Opens Writes raising_dump grism_manifest ''./asn.json'' disk_with_old_file
       = (Some OtherError, disk_with_old_file\<lparr>files := [''./asn.json'' \<mapsto> []]\<rparr>)
   \<and> open_files (snd (persist Opens (FailsAfter 3) returning_dump grism_manifest ''./asn.json''
        disk_with_old_file)) = []
   \<and> open_files (snd (persist Opens Writes raising_dump grism_manifest ''./asn.json''
        disk_with_old_file)) = []"
proof -
  have d1: "dump_text returning_dump grism_manifest = Inr ''association text''"
    by (rule dump_text_returning)
  have d2: "dump_text raising_dump grism_manifest = Inl OtherError"
    by (rule dump_text_raising)
  have r: "Refused \<noteq> Opens" by simp
  have f: "files disk_with_old_file = [''./asn.json'' \<mapsto> ''old association'']"
    and h: "open_files disk_with_old_file = []"
    by (simp_all add: disk_with_old_file_def)
  show ?thesis
    using d1 d2 r
      persist_outcomes [of Opens Writes returning_dump grism_manifest "''./asn.json''"
        disk_with_old_file "''association text''" 3 OtherError]
      persist_outcomes [of Opens "FailsAfter 3" returning_dump grism_manifest "''./asn.json''"
        disk_with_old_file "''association text''" 3 OtherError]
      persist_outcomes [of ParentMissing Writes returning_dump grism_manifest "''missing/asn.json''"
        disk_with_old_file "''association text''" 3 OtherError]
      persist_outcomes [of Refused Writes returning_dump grism_manifest "''./outputs''"
        disk_with_old_file "''association text''" 3 OtherError]
      persist_outcomes [of Opens Writes raising_dump grism_manifest "''./asn.json''"
        disk_with_old_file "''association text''" 3 OtherError]
    by (simp add: f h)
qed

end
